theory Spec2Isabelle
  imports Main "HOL-Library.Word"
begin

unbundle bit_operations_syntax

section \<open>Errors and Python values\<close>

text \<open>
  The exceptions that the modelled Python code can raise. A call that raises is a
  result \<open>Inl e\<close>; a call that returns \<open>v\<close> is \<open>Inr v\<close>.
\<close>

datatype error =
    TypeError
  | AttributeError
  | KeyError
  | ValueError
  | DuplicateIdError
  | NotFoundError

text \<open>
  The loosely typed payloads of the source (\<open>Any\<close>, \<open>Dict[str, Any]\<close>) as a closed
  union. A Python \<open>str\<close> is a \<open>string\<close>, one list element per character; a Python
  \<open>dict\<close> with string keys is an association list in insertion order.
\<close>

datatype pyval =
    PNone
  | PBool bool
  | PInt int
  | PStr string
  | PList "pyval list"
  | PDict "(string \<times> pyval) list"

type_synonym pydict = "(string \<times> pyval) list"

text \<open>\<open>d[k]\<close>: the value stored under \<open>k\<close>, \<open>KeyError\<close> when the key is absent.\<close>

definition dict_getitem :: "pydict \<Rightarrow> string \<Rightarrow> error + pyval" where
  "dict_getitem d k = (case map_of d k of None \<Rightarrow> Inl KeyError | Some v \<Rightarrow> Inr v)"

text \<open>\<open>d[k] = v\<close>: replaces the value of an existing key in place, appends a new key.\<close>

fun dict_setitem :: "pydict \<Rightarrow> string \<Rightarrow> pyval \<Rightarrow> pydict" where
  "dict_setitem [] k v = [(k, v)]"
| "dict_setitem ((k', v') # d) k v =
     (if k' = k then (k, v) # d else (k', v') # dict_setitem d k v)"

section \<open>Spans (medkit/core/text/span.py)\<close>

text \<open>
  \<open>Span\<close> is a \<open>NamedTuple\<close> with the integer fields \<open>start\<close> and \<open>end\<close>;
  \<open>ModifiedSpan\<close> is a dataclass with the fields \<open>length\<close> and \<open>replaced_spans\<close>.
  Neither class defines \<open>__init__\<close>, \<open>__new__\<close> or \<open>__post_init__\<close>: the generated
  constructors store their arguments and check nothing.
\<close>

datatype Span = Span (span_start: int) (span_end: int)

datatype ModifiedSpan = ModifiedSpan (ms_length: int) (replaced_spans: "Span list")

datatype AnySpanType = Plain Span | Modified ModifiedSpan

text \<open>The generated constructors, as calls that could raise: they never do.\<close>

definition Span_new :: "int \<Rightarrow> int \<Rightarrow> error + Span" where
  "Span_new s e = Inr (Span s e)"

definition ModifiedSpan_new :: "int \<Rightarrow> Span list \<Rightarrow> error + ModifiedSpan" where
  "ModifiedSpan_new n rs = Inr (ModifiedSpan n rs)"

text \<open>The property \<open>Span.length\<close>: \<open>self.end - self.start\<close>.\<close>

definition span_length :: "Span \<Rightarrow> int" where
  "span_length sp = span_end sp - span_start sp"

section \<open>Identifiers and the subclass registry\<close>

text \<open>
  \<open>medkit.core.id.generate_id\<close> is not among the sources. Every function that may
  call it takes the identifier that the call would return as an argument (\<open>fresh\<close>).
\<close>

text \<open>
  Modelled from the spec: \<open>medkit.core.dict_conv\<close> is not among the sources. The
  serialized form of every entity carries the canonical name of its class under the key
  \<open>class_name\<close>; the canonical names of the classes of the sources are their plain
  names.
\<close>

definition class_name_key :: string where
  "class_name_key = ''class_name''"

text \<open>Modelled from the spec: the canonical class names, each the plain name of the class.\<close>

definition Attribute_cls :: string where
  "Attribute_cls = ''Attribute''"

definition Segment_cls :: string where
  "Segment_cls = ''Segment''"

definition Entity_cls :: string where
  "Entity_cls = ''Entity''"

definition Relation_cls :: string where
  "Relation_cls = ''Relation''"

definition TextDocument_cls :: string where
  "TextDocument_cls = ''TextDocument''"

text \<open>
  Modelled from the spec: \<open>dict_conv.add_class_name_to_data_dict(obj, data)\<close> embeds
  the canonical name of the class of \<open>obj\<close> in the emitted mapping.
\<close>

definition add_class_name_to_data_dict :: "string \<Rightarrow> pydict \<Rightarrow> pydict" where
  "add_class_name_to_data_dict cls d = dict_setitem d class_name_key (PStr cls)"

text \<open>
  Modelled from the spec: \<open>cls.get_subclass_for_data_dict(data)\<close> reads the class name
  of the mapping; when it names a registered subclass other than \<open>cls\<close> the result is
  that subclass, otherwise (the name of \<open>cls\<close> itself, or a name that is not
  registered) it is \<open>None\<close>. The registry maps a canonical class name to the
  \<open>from_dict\<close> of the subclass registered under it.
\<close>

definition get_subclass_for_data_dict ::
  "(string \<rightharpoonup> 'f) \<Rightarrow> string \<Rightarrow> pydict \<Rightarrow> error + 'f option" where
  "get_subclass_for_data_dict registry cls d =
     (case dict_getitem d class_name_key of
        Inl e \<Rightarrow> Inl e
      | Inr (PStr n) \<Rightarrow> Inr (if n = cls then None else registry n)
      | Inr _ \<Rightarrow> Inr None)"

section \<open>Attributes (medkit/core/attribute.py)\<close>

text \<open>
  An instance of \<open>Attribute\<close> or of a subclass: the canonical name of its class and
  the four fields of the dataclass. Python checks none of the annotated types, so each
  field holds any value.
\<close>

record Attribute =
  attr_class :: string
  attr_uid :: pyval
  attr_label :: pyval
  attr_value :: pyval
  attr_metadata :: pyval

text \<open>
  \<open>Attribute.__init__(self, label, value, metadata, uid)\<close> on an instance of class
  \<open>cls\<close>: a \<open>metadata\<close> of \<open>None\<close> becomes the empty dict, a \<open>uid\<close> of \<open>None\<close>
  becomes a generated identifier.
\<close>

definition Attribute_init :: "string \<Rightarrow> pyval \<Rightarrow> pyval \<Rightarrow> pyval \<Rightarrow> pyval \<Rightarrow> string \<Rightarrow> Attribute" where
  "Attribute_init cls label val metadata uid fresh =
     (let metadata' = (if metadata = PNone then PDict [] else metadata);
          uid' = (if uid = PNone then PStr fresh else uid)
      in \<lparr>attr_class = cls, attr_uid = uid', attr_label = label, attr_value = val,
          attr_metadata = metadata'\<rparr>)"

text \<open>\<open>Attribute.to_dict\<close>: the four fields, then the class name.\<close>

definition Attribute_to_dict :: "Attribute \<Rightarrow> pydict" where
  "Attribute_to_dict a =
     add_class_name_to_data_dict (attr_class a)
       [(''uid'', attr_uid a), (''label'', attr_label a), (''value'', attr_value a),
        (''metadata'', attr_metadata a)]"

text \<open>\<open>Attribute.to_brat\<close> and \<open>Attribute.to_spacy\<close> return the value.\<close>

definition Attribute_to_brat :: "Attribute \<Rightarrow> pyval" where
  "Attribute_to_brat a = attr_value a"

definition Attribute_to_spacy :: "Attribute \<Rightarrow> pyval" where
  "Attribute_to_spacy a = attr_value a"

text \<open>
  \<open>Attribute.copy\<close>: \<open>dataclasses.replace(self, uid=generate_id())\<close> calls the
  constructor of the class of \<open>self\<close> with the fields of \<open>self\<close> and the new uid.
\<close>

definition Attribute_copy :: "Attribute \<Rightarrow> string \<Rightarrow> Attribute" where
  "Attribute_copy a fresh =
     Attribute_init (attr_class a) (attr_label a) (attr_value a) (attr_metadata a)
       (PStr fresh) fresh"

text \<open>
  \<open>Attribute.from_dict\<close> called on class \<open>cls\<close>: a subclass found for the mapping
  takes over; otherwise \<open>cls\<close> is constructed from the four keys, each read with
  \<open>attribute_dict[key]\<close> in the order of the call's keyword arguments.
\<close>

type_synonym attribute_registry = "string \<rightharpoonup> (pydict \<Rightarrow> error + Attribute)"

definition Attribute_from_dict ::
  "attribute_registry \<Rightarrow> string \<Rightarrow> string \<Rightarrow> pydict \<Rightarrow> error + Attribute" where
  "Attribute_from_dict registry cls fresh d =
     (case get_subclass_for_data_dict registry cls d of
        Inl e \<Rightarrow> Inl e
      | Inr (Some subclass_from_dict) \<Rightarrow> subclass_from_dict d
      | Inr None \<Rightarrow>
          (case dict_getitem d ''uid'' of Inl e \<Rightarrow> Inl e | Inr u \<Rightarrow>
          (case dict_getitem d ''label'' of Inl e \<Rightarrow> Inl e | Inr l \<Rightarrow>
          (case dict_getitem d ''value'' of Inl e \<Rightarrow> Inl e | Inr v \<Rightarrow>
          (case dict_getitem d ''metadata'' of Inl e \<Rightarrow> Inl e | Inr m \<Rightarrow>
             Inr (Attribute_init cls l v m u fresh))))))"

section \<open>Text annotations (medkit/core/text/annotation.py)\<close>

text \<open>
  Modelled from the spec: the base class \<open>medkit.core.annotation.Annotation\<close> is not
  among the sources. An annotation has a uid, a label, an ordered sequence of attributes
  and metadata. Its constructor requires the label; the uid defaults to a generated
  identifier, the attributes to a new empty sequence and the metadata to an empty
  mapping. \<open>ann_class\<close> is the canonical name of the class of the instance.
\<close>

record Annotation =
  ann_class :: string
  ann_uid :: string
  ann_label :: string
  ann_attrs :: "Attribute list"
  ann_metadata :: pydict

text \<open>
  Modelled from the spec: \<open>Annotation.__init__(self, label, attrs, ann_id, metadata)\<close>
  with the defaults above; it checks nothing.
\<close>

definition Annotation_init ::
  "string \<Rightarrow> string \<Rightarrow> Attribute list option \<Rightarrow> string option \<Rightarrow> pydict option \<Rightarrow> string
   \<Rightarrow> Annotation" where
  "Annotation_init cls label attrs ann_id metadata fresh =
     \<lparr>ann_class = cls,
      ann_uid = (case ann_id of None \<Rightarrow> fresh | Some u \<Rightarrow> u),
      ann_label = label,
      ann_attrs = (case attrs of None \<Rightarrow> [] | Some xs \<Rightarrow> xs),
      ann_metadata = (case metadata of None \<Rightarrow> [] | Some m \<Rightarrow> m)\<rparr>"

text \<open>
  Modelled from the spec: \<open>Annotation.to_dict\<close>, the serialized form shared by the
  variants: uid, label, the serialized attributes and the metadata, with the class name.
\<close>

definition Annotation_to_dict :: "('a Annotation_scheme) \<Rightarrow> pydict" where
  "Annotation_to_dict a =
     add_class_name_to_data_dict (ann_class a)
       [(''uid'', PStr (ann_uid a)), (''label'', PStr (ann_label a)),
        (''attrs'', PList (map (\<lambda>x. PDict (Attribute_to_dict x)) (ann_attrs a))),
        (''metadata'', PDict (ann_metadata a))]"

text \<open>
  \<open>TextAnnotation.__init__\<close> passes its four arguments to the constructor of the base
  class.
\<close>

definition TextAnnotation_init ::
  "string \<Rightarrow> string \<Rightarrow> Attribute list option \<Rightarrow> string option \<Rightarrow> pydict option \<Rightarrow> string
   \<Rightarrow> Annotation" where
  "TextAnnotation_init cls label attrs ann_id metadata fresh =
     Annotation_init cls label attrs ann_id metadata fresh"

text \<open>
  A \<open>Segment\<close> adds \<open>spans\<close> and \<open>text\<close> to the fields of the base class; an
  \<open>Entity\<close> is a \<open>Segment\<close> of class \<open>Entity\<close>. \<open>Segment.__init__\<close> runs the
  constructor of \<open>TextAnnotation\<close> and stores the two arguments as they are.
\<close>

record Segment = Annotation +
  spans :: "AnySpanType list"
  seg_text :: string

definition Segment_init ::
  "string \<Rightarrow> string \<Rightarrow> AnySpanType list \<Rightarrow> string \<Rightarrow> Attribute list option \<Rightarrow> string option
   \<Rightarrow> pydict option \<Rightarrow> string \<Rightarrow> Segment" where
  "Segment_init cls label sps txt attrs ann_id metadata fresh =
     (let base = TextAnnotation_init cls label attrs ann_id metadata fresh
      in \<lparr>ann_class = ann_class base, ann_uid = ann_uid base, ann_label = ann_label base,
          ann_attrs = ann_attrs base, ann_metadata = ann_metadata base,
          spans = sps, seg_text = txt\<rparr>)"

text \<open>
  The parameters of \<open>Segment.__init__\<close> after \<open>self\<close>. A call binds each keyword
  argument to the parameter of that name; a keyword that names no parameter raises
  \<open>TypeError\<close> before the body runs (the signature has no \<open>**kwargs\<close>).
\<close>

definition Segment_init_params :: "string list" where
  "Segment_init_params = [''label'', ''spans'', ''text'', ''attrs'', ''ann_id'', ''metadata'']"

definition accepts_keywords :: "string list \<Rightarrow> string list \<Rightarrow> bool" where
  "accepts_keywords params kws = list_all (\<lambda>k. k \<in> set params) kws"

text \<open>\<open>Entity.__init__\<close> passes \<open>entity_id\<close> as \<open>ann_id\<close> to \<open>Segment.__init__\<close>.\<close>

definition Entity_init ::
  "string \<Rightarrow> string \<Rightarrow> AnySpanType list \<Rightarrow> string \<Rightarrow> Attribute list option \<Rightarrow> string option
   \<Rightarrow> pydict option \<Rightarrow> string \<Rightarrow> Segment" where
  "Entity_init cls label sps txt attrs entity_id metadata fresh =
     Segment_init cls label sps txt attrs entity_id metadata fresh"

text \<open>
  A \<open>Relation\<close> adds \<open>source_id\<close> and \<open>target_id\<close>. \<open>Relation.__init__\<close> runs the
  constructor of \<open>TextAnnotation\<close> with \<open>rel_id\<close> as \<open>ann_id\<close> and stores the two
  identifiers as they are. It has no access to any container of annotations.
\<close>

record Relation = Annotation +
  source_id :: string
  target_id :: string

definition Relation_init ::
  "string \<Rightarrow> string \<Rightarrow> string \<Rightarrow> string \<Rightarrow> Attribute list option \<Rightarrow> string option
   \<Rightarrow> pydict option \<Rightarrow> string \<Rightarrow> Relation" where
  "Relation_init cls label src tgt attrs rel_id metadata fresh =
     (let base = TextAnnotation_init cls label attrs rel_id metadata fresh
      in \<lparr>ann_class = ann_class base, ann_uid = ann_uid base, ann_label = ann_label base,
          ann_attrs = ann_attrs base, ann_metadata = ann_metadata base,
          source_id = src, target_id = tgt\<rparr>)"

text \<open>
  The constructor calls \<open>Segment(...)\<close>, \<open>Entity(...)\<close> and \<open>Relation(...)\<close> with
  arguments for parameters of the signature: the instance has the class that is called.
\<close>

definition new_Segment ::
  "string \<Rightarrow> AnySpanType list \<Rightarrow> string \<Rightarrow> Attribute list option \<Rightarrow> string option
   \<Rightarrow> pydict option \<Rightarrow> string \<Rightarrow> error + Segment" where
  "new_Segment label sps txt attrs ann_id metadata fresh =
     Inr (Segment_init Segment_cls label sps txt attrs ann_id metadata fresh)"

definition new_Entity ::
  "string \<Rightarrow> AnySpanType list \<Rightarrow> string \<Rightarrow> Attribute list option \<Rightarrow> string option
   \<Rightarrow> pydict option \<Rightarrow> string \<Rightarrow> error + Segment" where
  "new_Entity label sps txt attrs entity_id metadata fresh =
     Inr (Entity_init Entity_cls label sps txt attrs entity_id metadata fresh)"

definition new_Relation ::
  "string \<Rightarrow> string \<Rightarrow> string \<Rightarrow> Attribute list option \<Rightarrow> string option
   \<Rightarrow> pydict option \<Rightarrow> string \<Rightarrow> error + Relation" where
  "new_Relation label src tgt attrs rel_id metadata fresh =
     Inr (Relation_init Relation_cls label src tgt attrs rel_id metadata fresh)"

subsection \<open>Serialization of segments and relations\<close>

text \<open>
  The attributes that the classes of \<open>span.py\<close> define: the fields \<open>start\<close> and
  \<open>end\<close> and the property \<open>length\<close> of \<open>Span\<close>, the fields \<open>length\<close> and
  \<open>replaced_spans\<close> of \<open>ModifiedSpan\<close>. All of them hold data. The members that the
  classes inherit from \<open>tuple\<close> and \<open>object\<close> are left out; none is named
  \<open>to_dict\<close>.
\<close>

definition Span_attributes :: "string list" where
  "Span_attributes = [''start'', ''end'', ''length'']"

definition ModifiedSpan_attributes :: "string list" where
  "ModifiedSpan_attributes = [''length'', ''replaced_spans'']"

fun attributes_of :: "AnySpanType \<Rightarrow> string list" where
  "attributes_of (Plain sp) = Span_attributes"
| "attributes_of (Modified m) = ModifiedSpan_attributes"

text \<open>
  The call \<open>s.to_dict()\<close> on a span: looking up a name that the class of \<open>s\<close> does
  not define raises \<open>AttributeError\<close>; calling an attribute that holds data raises
  \<open>TypeError\<close>.
\<close>

definition AnySpanType_to_dict :: "AnySpanType \<Rightarrow> error + pyval" where
  "AnySpanType_to_dict s =
     (if ''to_dict'' \<in> set (attributes_of s) then Inl TypeError else Inl AttributeError)"

text \<open>A list comprehension \<open>[f(x) for x in xs]\<close>: the first call that raises ends it.\<close>

fun map_result :: "('a \<Rightarrow> error + 'b) \<Rightarrow> 'a list \<Rightarrow> error + 'b list" where
  "map_result f [] = Inr []"
| "map_result f (x # xs) =
     (case f x of
        Inl e \<Rightarrow> Inl e
      | Inr y \<Rightarrow> (case map_result f xs of Inl e \<Rightarrow> Inl e | Inr ys \<Rightarrow> Inr (y # ys)))"

text \<open>
  \<open>Segment.to_dict\<close>: the mapping of the base class, then the serialized spans, then
  \<open>data.update(spans=spans, text=self.text)\<close>.
\<close>

definition Segment_to_dict :: "Segment \<Rightarrow> error + pydict" where
  "Segment_to_dict seg =
     (let data = Annotation_to_dict seg
      in case map_result AnySpanType_to_dict (spans seg) of
           Inl e \<Rightarrow> Inl e
         | Inr sps \<Rightarrow>
             Inr (dict_setitem (dict_setitem data ''spans'' (PList sps))
                    ''text'' (PStr (seg_text seg))))"

text \<open>
  \<open>Relation.to_dict\<close>: the mapping of the base class, then
  \<open>data.update(source_id=self.source_id, target_id=self.target_id)\<close>.
\<close>

definition Relation_to_dict :: "Relation \<Rightarrow> error + pydict" where
  "Relation_to_dict r =
     (let data = Annotation_to_dict r
      in Inr (dict_setitem (dict_setitem data ''source_id'' (PStr (source_id r)))
                ''target_id'' (PStr (target_id r))))"

section \<open>Text documents (medkit/core/text/document.py)\<close>

text \<open>
  Modelled from the spec: \<open>TextAnnotationContainer\<close> is not among the sources. The
  container of a document holds its annotations by uid in insertion order; the raw
  segment is injected at construction and is visible like any other annotation;
  \<open>add\<close> fails with \<open>DuplicateIdError\<close> for a uid that the container holds;
  \<open>get_by_id\<close> fails with \<open>NotFoundError\<close> for a uid that it does not hold.
\<close>

datatype TextAnnotation = SegmentAnn Segment | RelationAnn Relation

text \<open>The uid of an annotation of either kind.\<close>

fun TextAnnotation_uid :: "TextAnnotation \<Rightarrow> string" where
  "TextAnnotation_uid (SegmentAnn seg) = ann_uid seg"
| "TextAnnotation_uid (RelationAnn r) = ann_uid r"

text \<open>
  Modelled from the spec: the state of a container, its annotations in insertion order.
\<close>

record TextAnnotationContainer =
  cont_doc_id :: string
  cont_raw_segment :: Segment
  cont_anns :: "TextAnnotation list"

text \<open>
  Modelled from the spec: \<open>TextAnnotationContainer(doc_id, raw_segment)\<close> injects the
  raw segment.
\<close>

definition TextAnnotationContainer_init :: "string \<Rightarrow> Segment \<Rightarrow> TextAnnotationContainer" where
  "TextAnnotationContainer_init doc_id raw =
     \<lparr>cont_doc_id = doc_id, cont_raw_segment = raw, cont_anns = [SegmentAnn raw]\<rparr>"

text \<open>
  Modelled from the spec: \<open>add\<close> fails with \<open>DuplicateIdError\<close> for a uid that is
  held and appends otherwise.
\<close>

definition TextAnnotationContainer_add ::
  "TextAnnotationContainer \<Rightarrow> TextAnnotation \<Rightarrow> error + TextAnnotationContainer" where
  "TextAnnotationContainer_add c a =
     (if TextAnnotation_uid a \<in> set (map TextAnnotation_uid (cont_anns c))
      then Inl DuplicateIdError
      else Inr (c\<lparr>cont_anns := cont_anns c @ [a]\<rparr>))"

text \<open>
  Modelled from the spec: \<open>get_by_id\<close> returns the annotation with the uid and fails
  with \<open>NotFoundError\<close> when there is none.
\<close>

definition TextAnnotationContainer_get_by_id ::
  "TextAnnotationContainer \<Rightarrow> string \<Rightarrow> error + TextAnnotation" where
  "TextAnnotationContainer_get_by_id c uid =
     (case find (\<lambda>a. TextAnnotation_uid a = uid) (cont_anns c) of
        None \<Rightarrow> Inl NotFoundError
      | Some a \<Rightarrow> Inr a)"

text \<open>The loop \<open>for ann in anns: self.anns.add(ann)\<close>.\<close>

fun add_all :: "TextAnnotationContainer \<Rightarrow> TextAnnotation list \<Rightarrow> error + TextAnnotationContainer" where
  "add_all c [] = Inr c"
| "add_all c (a # as) =
     (case TextAnnotationContainer_add c a of Inl e \<Rightarrow> Inl e | Inr c' \<Rightarrow> add_all c' as)"

record TextDocument =
  doc_class :: string
  doc_uid :: string
  doc_metadata :: pydict
  raw_segment :: Segment
  doc_anns :: TextAnnotationContainer

definition RAW_LABEL :: string where
  "RAW_LABEL = ''RAW_TEXT''"

text \<open>
  \<open>str(uuid.UUID(int=n))\<close> for a value of 128 bits: the 32 lower-case hexadecimal
  digits of \<open>n\<close>, most significant first, in groups of 8, 4, 4, 4 and 12 digits joined
  by hyphens.
\<close>

definition hex_digit :: "nat \<Rightarrow> char" where
  "hex_digit d = ''0123456789abcdef'' ! d"

definition hex32 :: "128 word \<Rightarrow> string" where
  "hex32 w = map (\<lambda>i. hex_digit (unat (drop_bit (4 * (31 - i)) w AND 15))) [0..<32]"

definition str_UUID :: "128 word \<Rightarrow> string" where
  "str_UUID w =
     (let h = hex32 w
      in take 8 h @ ''-'' @ take 4 (drop 8 h) @ ''-'' @ take 4 (drop 12 h) @ ''-''
         @ take 4 (drop 16 h) @ ''-'' @ drop 20 h)"

text \<open>
  The identifier that \<open>_generate_raw_segment\<close> derives from the uid of the document:
  \<open>str(uuid.UUID(int=random.Random(doc_id).getrandbits(128)))\<close>. The generator of
  the standard library is a parameter: \<open>getrandbits128 s\<close> is the 128 bits that a
  generator seeded with the string \<open>s\<close> draws first.
\<close>

definition raw_segment_uid :: "(string \<Rightarrow> 128 word) \<Rightarrow> string \<Rightarrow> string" where
  "raw_segment_uid getrandbits128 doc_id = str_UUID (getrandbits128 doc_id)"

text \<open>
  \<open>TextDocument._generate_raw_segment(text, doc_id)\<close>: the derived identifier, then
  the call \<open>Segment(label=cls.RAW_LABEL, spans=[Span(0, len(text))], text=text,
  uid=uid)\<close>. The keywords of the call are bound against the parameters of
  \<open>Segment.__init__\<close>; the keywords that bind are \<open>label\<close>, \<open>spans\<close> and \<open>text\<close>.
\<close>

definition generate_raw_segment ::
  "(string \<Rightarrow> 128 word) \<Rightarrow> string \<Rightarrow> string \<Rightarrow> string \<Rightarrow> error + Segment" where
  "generate_raw_segment getrandbits128 fresh txt doc_id =
     (let uid = raw_segment_uid getrandbits128 doc_id
      in if accepts_keywords Segment_init_params [''label'', ''spans'', ''text'', ''uid'']
         then new_Segment RAW_LABEL [Plain (Span 0 (int (length txt)))] txt None None None fresh
         else Inl TypeError)"

text \<open>
  \<open>TextDocument.__init__(self, text, anns, metadata, uid)\<close> on an instance of class
  \<open>cls\<close>. \<open>fresh_doc\<close> is the identifier generated for a document without uid.
\<close>

definition TextDocument_init ::
  "string \<Rightarrow> (string \<Rightarrow> 128 word) \<Rightarrow> string \<Rightarrow> string \<Rightarrow> string \<Rightarrow> TextAnnotation list option
   \<Rightarrow> pydict option \<Rightarrow> string option \<Rightarrow> error + TextDocument" where
  "TextDocument_init cls getrandbits128 fresh_doc fresh txt anns metadata uid =
     (let anns' = (case anns of None \<Rightarrow> [] | Some xs \<Rightarrow> xs);
          metadata' = (case metadata of None \<Rightarrow> [] | Some m \<Rightarrow> m);
          uid' = (case uid of None \<Rightarrow> fresh_doc | Some u \<Rightarrow> u)
      in case generate_raw_segment getrandbits128 fresh txt uid' of
           Inl e \<Rightarrow> Inl e
         | Inr raw \<Rightarrow>
             (case add_all (TextAnnotationContainer_init uid' raw) anns' of
                Inl e \<Rightarrow> Inl e
              | Inr c \<Rightarrow>
                  Inr \<lparr>doc_class = cls, doc_uid = uid', doc_metadata = metadata',
                       raw_segment = raw, doc_anns = c\<rparr>))"

definition new_TextDocument ::
  "(string \<Rightarrow> 128 word) \<Rightarrow> string \<Rightarrow> string \<Rightarrow> string \<Rightarrow> TextAnnotation list option
   \<Rightarrow> pydict option \<Rightarrow> string option \<Rightarrow> error + TextDocument" where
  "new_TextDocument getrandbits128 fresh_doc fresh txt anns metadata uid =
     TextDocument_init TextDocument_cls getrandbits128 fresh_doc fresh txt anns metadata uid"

text \<open>The property \<open>TextDocument.text\<close>: \<open>self.raw_segment.text\<close>.\<close>

definition TextDocument_text :: "TextDocument \<Rightarrow> string" where
  "TextDocument_text doc = seg_text (raw_segment doc)"

section \<open>Snippets (Segment.get_snippet)\<close>

text \<open>
  Modelled from the spec: \<open>span_utils.normalize_spans\<close> is not among the sources. It
  merges adjacent plain spans that are contiguous (\<open>a.end == b.start\<close>) into a single
  span, never merges a plain span with a modified span, and keeps the order.
\<close>

fun normalize_spans :: "AnySpanType list \<Rightarrow> AnySpanType list" where
  "normalize_spans (Plain (Span a b) # Plain (Span c d) # rest) =
     (if b = c then normalize_spans (Plain (Span a d) # rest)
      else Plain (Span a b) # normalize_spans (Plain (Span c d) # rest))"
| "normalize_spans (s # rest) = s # normalize_spans rest"
| "normalize_spans [] = []"

text \<open>
  The attribute reads \<open>s.start\<close> and \<open>s.end\<close> on a span: a \<open>ModifiedSpan\<close> has
  neither attribute.
\<close>

fun AnySpanType_start :: "AnySpanType \<Rightarrow> error + int" where
  "AnySpanType_start (Plain sp) = Inr (span_start sp)"
| "AnySpanType_start (Modified m) = Inl AttributeError"

fun AnySpanType_end :: "AnySpanType \<Rightarrow> error + int" where
  "AnySpanType_end (Plain sp) = Inr (span_end sp)"
| "AnySpanType_end (Modified m) = Inl AttributeError"

text \<open>\<open>min\<close> and \<open>max\<close> of a sequence: \<open>ValueError\<close> when it is empty.\<close>

fun py_min :: "int list \<Rightarrow> error + int" where
  "py_min [] = Inl ValueError"
| "py_min (x # xs) = Inr (fold min xs x)"

fun py_max :: "int list \<Rightarrow> error + int" where
  "py_max [] = Inl ValueError"
| "py_max (x # xs) = Inr (fold max xs x)"

text \<open>
  The slice \<open>xs[i:j]\<close> of a sequence: a negative bound counts from the end, each bound
  is clipped to the sequence, and the slice is empty when the bounds cross.
\<close>

definition py_slice :: "'a list \<Rightarrow> int \<Rightarrow> int \<Rightarrow> 'a list" where
  "py_slice xs i j =
     (let n = int (length xs);
          i' = (if i < 0 then max (i + n) 0 else min i n);
          j' = (if j < 0 then max (j + n) 0 else min j n)
      in take (nat (j' - i')) (drop (nat i') xs))"

text \<open>
  \<open>Segment.get_snippet(self, doc, max_extend_length)\<close>. The generator under \<open>min\<close>
  reads \<open>s.start\<close> of every normalized span before \<open>max\<close> reads any \<open>s.end\<close>.
\<close>

definition Segment_get_snippet :: "Segment \<Rightarrow> TextDocument \<Rightarrow> int \<Rightarrow> error + string" where
  "Segment_get_snippet seg doc max_extend_length =
     (let spans_normalized = normalize_spans (spans seg)
      in case map_result AnySpanType_start spans_normalized of Inl e \<Rightarrow> Inl e | Inr starts \<Rightarrow>
        (case py_min starts of Inl e \<Rightarrow> Inl e | Inr start \<Rightarrow>
        (case map_result AnySpanType_end spans_normalized of Inl e \<Rightarrow> Inl e | Inr ends \<Rightarrow>
        (case py_max ends of Inl e \<Rightarrow> Inl e | Inr end' \<Rightarrow>
           (let start_extended = max (start - max_extend_length div 2) 0;
                remaining_max_extend_length = max_extend_length - (start - start_extended);
                end_extended = min (end' + remaining_max_extend_length)
                                   (int (length (TextDocument_text doc)))
            in Inr (py_slice (TextDocument_text doc) start_extended end_extended))))))"

section \<open>Method calls on an annotation\<close>

text \<open>
  The methods that can be called on a text annotation after its construction:
  \<open>to_dict\<close> and \<open>get_snippet\<close> of the sources (\<open>get_snippet\<close> is a method of
  segments only), and the two mutators of the base class, which is not among the
  sources.
\<close>

datatype api_call =
    Call_to_dict
  | Call_get_snippet TextDocument int
  | Call_add_attr Attribute
  | Call_update_metadata string pyval

text \<open>
  Modelled from the spec: the two mutators of the base class append an attribute to the
  attributes and store a value under a key of the metadata; the spec allows no other
  mutation. From the sources: \<open>to_dict\<close> and \<open>get_snippet\<close> assign no field of
  \<open>self\<close>, so the annotation after the call is the annotation before it. Each call
  gives its result and the annotation after it.
\<close>

fun call_method :: "api_call \<Rightarrow> TextAnnotation \<Rightarrow> (error + pyval) \<times> TextAnnotation" where
  "call_method Call_to_dict (SegmentAnn seg) =
     (case Segment_to_dict seg of Inl e \<Rightarrow> Inl e | Inr d \<Rightarrow> Inr (PDict d), SegmentAnn seg)"
| "call_method Call_to_dict (RelationAnn r) =
     (case Relation_to_dict r of Inl e \<Rightarrow> Inl e | Inr d \<Rightarrow> Inr (PDict d), RelationAnn r)"
| "call_method (Call_get_snippet doc n) (SegmentAnn seg) =
     (case Segment_get_snippet seg doc n of Inl e \<Rightarrow> Inl e | Inr w \<Rightarrow> Inr (PStr w),
      SegmentAnn seg)"
| "call_method (Call_get_snippet doc n) (RelationAnn r) = (Inl AttributeError, RelationAnn r)"
| "call_method (Call_add_attr a) (SegmentAnn seg) =
     (Inr PNone, SegmentAnn (seg\<lparr>ann_attrs := ann_attrs seg @ [a]\<rparr>))"
| "call_method (Call_add_attr a) (RelationAnn r) =
     (Inr PNone, RelationAnn (r\<lparr>ann_attrs := ann_attrs r @ [a]\<rparr>))"
| "call_method (Call_update_metadata k v) (SegmentAnn seg) =
     (Inr PNone, SegmentAnn (seg\<lparr>ann_metadata := dict_setitem (ann_metadata seg) k v\<rparr>))"
| "call_method (Call_update_metadata k v) (RelationAnn r) =
     (Inr PNone, RelationAnn (r\<lparr>ann_metadata := dict_setitem (ann_metadata r) k v\<rparr>))"

text \<open>
  The assignment \<open>segment.spans = value\<close> from outside the class. \<open>Segment\<close> is a
  plain class; \<open>spans\<close> is an instance attribute that \<open>__init__\<close> itself sets by
  assignment, and no property or \<open>__setattr__\<close> of the sources guards it. The tests
  of the repository assign it (\<open>entities[1].spans = [Span(start=5, end=11)]\<close>).
\<close>

definition Segment_assign_spans :: "Segment \<Rightarrow> AnySpanType list \<Rightarrow> Segment" where
  "Segment_assign_spans seg v = seg\<lparr>spans := v\<rparr>"

text \<open>A sequence of calls on one annotation: the annotation after the last call.\<close>

fun run_calls :: "api_call list \<Rightarrow> TextAnnotation \<Rightarrow> TextAnnotation" where
  "run_calls [] a = a"
| "run_calls (c # cs) a = run_calls cs (snd (call_method c a))"

text \<open>The fields of an annotation that the calls are not to change.\<close>

fun TextAnnotation_class :: "TextAnnotation \<Rightarrow> string" where
  "TextAnnotation_class (SegmentAnn seg) = ann_class seg"
| "TextAnnotation_class (RelationAnn r) = ann_class r"

fun TextAnnotation_label :: "TextAnnotation \<Rightarrow> string" where
  "TextAnnotation_label (SegmentAnn seg) = ann_label seg"
| "TextAnnotation_label (RelationAnn r) = ann_label r"

fun TextAnnotation_attrs :: "TextAnnotation \<Rightarrow> Attribute list" where
  "TextAnnotation_attrs (SegmentAnn seg) = ann_attrs seg"
| "TextAnnotation_attrs (RelationAnn r) = ann_attrs r"

datatype ann_structure =
    Segment_structure "AnySpanType list" string
  | Relation_structure string string

fun TextAnnotation_structure :: "TextAnnotation \<Rightarrow> ann_structure" where
  "TextAnnotation_structure (SegmentAnn seg) = Segment_structure (spans seg) (seg_text seg)"
| "TextAnnotation_structure (RelationAnn r) = Relation_structure (source_id r) (target_id r)"

section \<open>Example values\<close>

text \<open>
  A document with the text \<open>The cat sat.\<close> (12 characters) and no annotation but its
  raw segment, and three segments of it: \<open>cat\<close> as one span, \<open>cat\<close> as two
  contiguous spans, and \<open>sat.\<close> at the end of the text.
\<close>

definition example_raw_segment :: Segment where
  "example_raw_segment =
     Segment_init Segment_cls RAW_LABEL [Plain (Span 0 12)] ''The cat sat.'' None
       (Some ''raw-1'') None ''unused''"

definition example_document :: TextDocument where
  "example_document =
     \<lparr>doc_class = TextDocument_cls, doc_uid = ''doc-1'', doc_metadata = [],
      raw_segment = example_raw_segment,
      doc_anns = TextAnnotationContainer_init ''doc-1'' example_raw_segment\<rparr>"

definition example_cat :: Segment where
  "example_cat =
     Segment_init Segment_cls ''X'' [Plain (Span 4 7)] ''cat'' None (Some ''seg-1'') None
       ''unused''"

definition example_cat_split :: Segment where
  "example_cat_split =
     Segment_init Segment_cls ''X'' [Plain (Span 4 5), Plain (Span 5 7)] ''cat'' None
       (Some ''seg-2'') None ''unused''"

definition example_sat :: Segment where
  "example_sat =
     Segment_init Segment_cls ''X'' [Plain (Span 8 12)] ''sat.'' None (Some ''seg-3'') None
       ''unused''"

section \<open>Properties of spans\<close>

text \<open>
  C10. Constructing a \<open>Span\<close> or a \<open>ModifiedSpan\<close> is total and validates nothing:
  for all integers \<open>s\<close> and \<open>e\<close> the call \<open>Span(s, e)\<close> returns a span that stores
  both and whose \<open>length\<close> is \<open>e - s\<close>, which is zero for \<open>Span(5, 5)\<close> and negative
  for \<open>Span(7, 3)\<close>; \<open>ModifiedSpan\<close> stores any length with any list of replaced
  spans, also a negative length and a length that differs from what the replaced spans
  cover.
\<close>

theorem span_construction_total:
  "(\<exists>sp. Span_new s e = Inr sp \<and> span_start sp = s \<and> span_end sp = e
          \<and> span_length sp = e - s)
   \<and> (\<exists>m. ModifiedSpan_new n rs = Inr m \<and> ms_length m = n \<and> replaced_spans m = rs)
   \<and> (\<exists>sp. Span_new 5 5 = Inr sp \<and> span_length sp = 0)
   \<and> (\<exists>sp. Span_new 7 3 = Inr sp \<and> span_length sp < 0)
   \<and> (\<exists>m. ModifiedSpan_new (- 2) [Span 0 10] = Inr m
          \<and> ms_length m \<noteq> sum_list (map span_length (replaced_spans m)))"
  by (simp add: Span_new_def ModifiedSpan_new_def span_length_def)

section \<open>Properties of attributes\<close>

text \<open>
  A base attribute survives the passage through its serialized form, whatever the
  registry holds: the class name of the mapping is the name of the class that reads it.
\<close>

lemma Attribute_round_trip:
  assumes "attr_class a = cls" and "attr_uid a \<noteq> PNone" and "attr_metadata a \<noteq> PNone"
  shows "Attribute_from_dict registry cls fresh (Attribute_to_dict a) = Inr a"
  using assms
  by (simp add: Attribute_from_dict_def get_subclass_for_data_dict_def dict_getitem_def
      Attribute_to_dict_def add_class_name_to_data_dict_def class_name_key_def
      Attribute_init_def)

text \<open>
  C6. For every mapping that holds the keys \<open>uid\<close>, \<open>label\<close>, \<open>value\<close> and
  \<open>metadata\<close> and a class name under which no subclass of \<open>Attribute\<close> is
  registered, \<open>Attribute.from_dict\<close> does not fail: it returns the base
  \<open>Attribute\<close> that the constructor builds from the four values (a uid of \<open>None\<close>
  is replaced by a generated identifier and a metadata of \<open>None\<close> by an empty dict, as
  in every construction).
\<close>

theorem Attribute_from_dict_unregistered_class:
  assumes "map_of d class_name_key = Some (PStr n)" and "registry n = None"
    and "map_of d ''uid'' = Some u" and "map_of d ''label'' = Some l"
    and "map_of d ''value'' = Some v" and "map_of d ''metadata'' = Some m"
  shows "\<exists>a. Attribute_from_dict registry Attribute_cls fresh d = Inr a
           \<and> a = Attribute_init Attribute_cls l v m u fresh
           \<and> attr_class a = Attribute_cls \<and> attr_label a = l \<and> attr_value a = v
           \<and> attr_uid a = (if u = PNone then PStr fresh else u)
           \<and> attr_metadata a = (if m = PNone then PDict [] else m)"
  using assms
  by (simp add: Attribute_from_dict_def get_subclass_for_data_dict_def dict_getitem_def
      Attribute_init_def)

theorem Attribute_from_dict_unregistered_class_witness:
  "Attribute_from_dict (Map.empty(''UMLSNormAttribute'' \<mapsto> (\<lambda>d. Inl ValueError)))
     Attribute_cls ''fresh-id''
     [(''uid'', PStr ''a1''), (''label'', PStr ''negated''), (''value'', PBool True),
      (''metadata'', PDict []), (''class_name'', PStr ''FutureAttribute'')]
   = Inr \<lparr>attr_class = ''Attribute'', attr_uid = PStr ''a1'', attr_label = PStr ''negated'',
          attr_value = PBool True, attr_metadata = PDict []\<rparr>"
  using Attribute_from_dict_unregistered_class
    [of "[(''uid'', PStr ''a1''), (''label'', PStr ''negated''), (''value'', PBool True),
          (''metadata'', PDict []), (''class_name'', PStr ''FutureAttribute'')]"
        "''FutureAttribute''"
        "Map.empty(''UMLSNormAttribute'' \<mapsto> (\<lambda>d. Inl ValueError))"
        "PStr ''a1''" "PStr ''negated''" "PBool True" "PDict []" "''fresh-id''"]
  by (simp add: class_name_key_def Attribute_init_def Attribute_cls_def)

section \<open>Properties of annotations\<close>

text \<open>
  C7. For every label and every pair of strings \<open>source_id\<close> and \<open>target_id\<close> (and
  any attributes, identifier and metadata), constructing a \<open>Relation\<close> succeeds and
  stores \<open>source_id\<close> and \<open>target_id\<close> as they are given. The constructor takes no
  container and looks no identifier up, so a relation whose endpoints were never added
  to any container constructs as well.
\<close>

theorem Relation_construction_stores_endpoints:
  "\<exists>r. new_Relation label src tgt attrs rel_id metadata fresh = Inr r
        \<and> source_id r = src \<and> target_id r = tgt
        \<and> ann_label r = label \<and> ann_class r = Relation_cls"
  by (simp add: new_Relation_def Relation_init_def TextAnnotation_init_def Annotation_init_def)

text \<open>One call leaves the identity and the structure of the annotation as they were.\<close>

lemma call_method_frame:
  "TextAnnotation_uid (snd (call_method c a)) = TextAnnotation_uid a
   \<and> TextAnnotation_label (snd (call_method c a)) = TextAnnotation_label a
   \<and> TextAnnotation_class (snd (call_method c a)) = TextAnnotation_class a
   \<and> TextAnnotation_structure (snd (call_method c a)) = TextAnnotation_structure a
   \<and> (\<exists>ys. TextAnnotation_attrs (snd (call_method c a)) = TextAnnotation_attrs a @ ys)"
  by (cases c; cases a) simp_all

text \<open>
  C8, as the code has it. For every text annotation and every sequence of method calls
  on it (serializing it, taking a snippet, appending an attribute, updating the
  metadata), the annotation after the calls has the uid, the label and the class it had
  before, and the same spans and text (a segment or an entity) or the same source and
  target (a relation); its attributes are the former ones followed by the appended
  ones. The fields themselves are ordinary attributes, open to assignment.
\<close>

theorem annotation_identity_and_structure_stable:
  "TextAnnotation_uid (run_calls cs a) = TextAnnotation_uid a
   \<and> TextAnnotation_label (run_calls cs a) = TextAnnotation_label a
   \<and> TextAnnotation_class (run_calls cs a) = TextAnnotation_class a
   \<and> TextAnnotation_structure (run_calls cs a) = TextAnnotation_structure a
   \<and> (\<exists>ys. TextAnnotation_attrs (run_calls cs a) = TextAnnotation_attrs a @ ys)"
proof (induction cs arbitrary: a)
  case Nil
  then show ?case by simp
next
  case (Cons c cs)
  let ?b = "snd (call_method c a)"
  from call_method_frame [of c a] obtain ys where
    ys: "TextAnnotation_attrs ?b = TextAnnotation_attrs a @ ys" by blast
  from Cons.IH [of ?b] obtain zs where
    zs: "TextAnnotation_attrs (run_calls cs ?b) = TextAnnotation_attrs ?b @ zs" by blast
  show ?case
    using Cons.IH [of ?b] call_method_frame [of c a] ys zs by simp
qed

text \<open>
  Assigning \<open>spans\<close> replaces the spans of a constructed segment: after
  \<open>segment.spans = [Span(5, 11)]\<close> the segment \<open>cat\<close> has the new span and its
  old text, so its spans did change after construction.
\<close>

theorem spans_assignment_changes_spans:
  "TextAnnotation_structure (SegmentAnn (Segment_assign_spans example_cat [Plain (Span 5 11)]))
     = Segment_structure [Plain (Span 5 11)] ''cat''
   \<and> TextAnnotation_structure (SegmentAnn example_cat)
     = Segment_structure [Plain (Span 4 7)] ''cat''
   \<and> TextAnnotation_structure (SegmentAnn (Segment_assign_spans example_cat [Plain (Span 5 11)]))
     \<noteq> TextAnnotation_structure (SegmentAnn example_cat)"
  by (simp add: Segment_assign_spans_def example_cat_def Segment_init_def Let_def)

section \<open>Properties of snippets\<close>

text \<open>Reading the bounds of plain spans never fails.\<close>

lemma map_result_start_plain:
  "map_result AnySpanType_start (map Plain qs) = Inr (map span_start qs)"
  by (induction qs) simp_all

lemma map_result_end_plain:
  "map_result AnySpanType_end (map Plain qs) = Inr (map span_end qs)"
  by (induction qs) simp_all

lemma py_min_Min: "xs \<noteq> [] \<Longrightarrow> py_min xs = Inr (Min (set xs))"
proof (cases xs)
  case (Cons y ys)
  then show ?thesis by (simp only: py_min.simps Min.set_eq_fold)
qed simp

lemma py_max_Max: "xs \<noteq> [] \<Longrightarrow> py_max xs = Inr (Max (set xs))"
proof (cases xs)
  case (Cons y ys)
  then show ?thesis by (simp only: py_max.simps Max.set_eq_fold)
qed simp

lemma single_plain_span:
  "\<exists>qs. [Plain z] = map Plain qs \<and> qs \<noteq> []
        \<and> Min (span_start ` set qs) = span_start z \<and> Max (span_end ` set qs) = span_end z"
  by (rule exI [of _ "[z]"]) simp

lemma normalize_spans_plain:
  "xs = map Plain sps \<Longrightarrow> sps \<noteq> [] \<Longrightarrow> list_all (\<lambda>sp. span_start sp \<le> span_end sp) sps \<Longrightarrow>
   \<exists>qs. normalize_spans xs = map Plain qs \<and> qs \<noteq> []
      \<and> Min (set (map span_start qs)) = Min (set (map span_start sps))
      \<and> Max (set (map span_end qs)) = Max (set (map span_end sps))"
proof (induction xs arbitrary: sps rule: normalize_spans.induct)
  case (1 a b c d rest)
  then obtain rs where sps: "sps = Span a b # Span c d # rs" and rest: "rest = map Plain rs"
    by (cases sps; cases "tl sps") auto
  from 1(5) sps have ab: "a \<le> b" and cd: "c \<le> d" and wf: "list_all (\<lambda>sp. span_start sp \<le> span_end sp) rs"
    by simp_all
  show ?case
  proof (cases "b = c")
    case True
    have "\<exists>qs. normalize_spans (Plain (Span a d) # rest) = map Plain qs \<and> qs \<noteq> []
      \<and> Min (set (map span_start qs)) = Min (set (map span_start (Span a d # rs)))
      \<and> Max (set (map span_end qs)) = Max (set (map span_end (Span a d # rs)))"
      using 1(1) [OF True, of "Span a d # rs"] rest ab cd wf True by simp
    then obtain qs where q: "normalize_spans (Plain (Span a d) # rest) = map Plain qs" "qs \<noteq> []"
      "Min (set (map span_start qs)) = Min (set (map span_start (Span a d # rs)))"
      "Max (set (map span_end qs)) = Max (set (map span_end (Span a d # rs)))" by blast
    have absorb_min: "min a (min c M) = min a M" for M :: int
      using ab True by linarith
    have absorb_max: "max b (max d M) = max d M" for M :: int
      using cd True by linarith
    have m1: "Min (set (map span_start (Span a d # rs))) = Min (set (map span_start sps))"
    proof (cases "rs = []")
      case True
      then show ?thesis using sps ab \<open>b = c\<close> by simp
    next
      case False
      then show ?thesis using sps absorb_min by simp
    qed
    have m2: "Max (set (map span_end (Span a d # rs))) = Max (set (map span_end sps))"
    proof (cases "rs = []")
      case True
      then show ?thesis using sps cd \<open>b = c\<close> by simp
    next
      case False
      then show ?thesis using sps absorb_max by simp
    qed
    show ?thesis using q m1 m2 True by auto
  next
    case False
    have "\<exists>qs. normalize_spans (Plain (Span c d) # rest) = map Plain qs \<and> qs \<noteq> []
      \<and> Min (set (map span_start qs)) = Min (set (map span_start (Span c d # rs)))
      \<and> Max (set (map span_end qs)) = Max (set (map span_end (Span c d # rs)))"
      using 1(2) [OF False, of "Span c d # rs"] rest cd wf by simp
    then obtain qs where q: "normalize_spans (Plain (Span c d) # rest) = map Plain qs" "qs \<noteq> []"
      "Min (set (map span_start qs)) = Min (set (map span_start (Span c d # rs)))"
      "Max (set (map span_end qs)) = Max (set (map span_end (Span c d # rs)))" by blast
    have "normalize_spans (Plain (Span a b) # Plain (Span c d) # rest) = map Plain (Span a b # qs)"
      using False q(1) by simp
    moreover have "Min (set (map span_start (Span a b # qs))) = Min (set (map span_start sps))"
      using q(2,3) sps by simp
    moreover have "Max (set (map span_end (Span a b # qs))) = Max (set (map span_end sps))"
      using q(2,4) sps by simp
    ultimately show ?thesis by blast
  qed
qed (auto simp: single_plain_span)


lemma py_slice_in_range:
  "0 \<le> i \<Longrightarrow> i \<le> j \<Longrightarrow> j \<le> int (length xs) \<Longrightarrow>
   py_slice xs i j = take (nat (j - i)) (drop (nat i) xs)"
  by (simp add: py_slice_def Let_def min_def)

lemma get_snippet_plain:
  assumes sp: "spans seg = map Plain sps" and ne: "sps \<noteq> []"
    and wf: "list_all (\<lambda>sp. span_start sp \<le> span_end sp) sps"
  shows "Segment_get_snippet seg doc m =
     (let start = Min (set (map span_start sps));
          end' = Max (set (map span_end sps));
          start_extended = max (start - m div 2) 0;
          end_extended = min (end' + (m - (start - start_extended)))
                             (int (length (TextDocument_text doc)))
      in Inr (py_slice (TextDocument_text doc) start_extended end_extended))"
proof -
  from normalize_spans_plain [OF refl ne wf] obtain qs where
    q: "normalize_spans (map Plain sps) = map Plain qs" "qs \<noteq> []"
       "Min (set (map span_start qs)) = Min (set (map span_start sps))"
       "Max (set (map span_end qs)) = Max (set (map span_end sps))" by blast
  have a: "py_min (map span_start qs) = Inr (Min (set (map span_start sps)))"
    using py_min_Min [of "map span_start qs"] q(2,3) by simp
  have b: "py_max (map span_end qs) = Inr (Max (set (map span_end sps)))"
    using py_max_Max [of "map span_end qs"] q(2,4) by simp
  show ?thesis
    unfolding Segment_get_snippet_def sp q(1) Let_def map_result_start_plain map_result_end_plain
    by (simp only: a b sum.case)
qed

lemma bounding_range_in_text:
  assumes ne: "sps \<noteq> []"
    and wf: "\<forall>sp\<in>set sps. 0 \<le> span_start sp \<and> span_start sp \<le> span_end sp \<and> span_end sp \<le> L"
  shows "0 \<le> Min (set (map span_start sps))"
    and "Min (set (map span_start sps)) \<le> Max (set (map span_end sps))"
    and "Max (set (map span_end sps)) \<le> L"
proof -
  from ne obtain sp where sp: "sp \<in> set sps" by (cases sps) auto
  show "0 \<le> Min (set (map span_start sps))" using ne wf by (simp add: Min_ge_iff)
  show "Max (set (map span_end sps)) \<le> L" using ne wf by (simp add: Max_le_iff)
  have "Min (set (map span_start sps)) \<le> span_start sp" using sp by (simp add: Min_le)
  moreover have "span_end sp \<le> Max (set (map span_end sps))" using sp by (simp add: Max_ge)
  moreover have "span_start sp \<le> span_end sp" using wf sp by blast
  ultimately show "Min (set (map span_start sps)) \<le> Max (set (map span_end sps))"
    by linarith
qed

text \<open>The example values, evaluated.\<close>

lemma example_document_text: "TextDocument_text example_document = ''The cat sat.''"
  by (simp add: TextDocument_text_def example_document_def example_raw_segment_def
      Segment_init_def Let_def)

lemma example_spans:
  "spans example_cat = [Plain (Span 4 7)]"
  "spans example_cat_split = map Plain [Span 4 5, Span 5 7]"
  "spans example_sat = [Plain (Span 8 12)]"
  by (simp_all add: example_cat_def example_cat_split_def example_sat_def Segment_init_def
      Let_def)

text \<open>
  C3, as the code has it. For every segment whose spans are plain spans within the
  text of the document (\<open>0 \<le> start \<le> end \<le> len(text)\<close> for each, at least one
  span) and every \<open>max_extend_length \<ge> 0\<close>, \<open>get_snippet\<close> returns the window
  \<open>text[start_extended:end_extended]\<close> of the text of the document around the
  bounding range \<open>[start, end)\<close> of the spans, where
  \<open>start_extended = max(start - max_extend_length // 2, 0)\<close> and
  \<open>end_extended = min(end + max_extend_length - (start - start_extended), len(text))\<close>.
  The window contains the bounding range and lies within the text; it extends the range
  by at most \<open>max_extend_length // 2\<close> characters before it and by at most
  \<open>max_extend_length\<close> characters in all; near the start of the text
  (\<open>start \<le> max_extend_length // 2\<close>) what cannot be used before the range is
  added after it. Nothing is added before the range when the window is clipped at the
  end of the text: the window has exactly
  \<open>min(max_extend_length + (end - start), len(text) - start_extended)\<close> characters.
\<close>

theorem get_snippet_window:
  assumes sp: "spans seg = map Plain sps" and ne: "sps \<noteq> []"
    and wf: "\<forall>sp\<in>set sps. 0 \<le> span_start sp \<and> span_start sp \<le> span_end sp
               \<and> span_end sp \<le> int (length (TextDocument_text doc))"
    and m: "0 \<le> m"
  shows "let txt = TextDocument_text doc;
             start = Min (set (map span_start sps));
             end' = Max (set (map span_end sps));
             start_extended = max (start - m div 2) 0;
             end_extended = min (end' + (m - (start - start_extended))) (int (length txt));
             window = take (nat (end_extended - start_extended)) (drop (nat start_extended) txt)
         in Segment_get_snippet seg doc m = Inr window
            \<and> 0 \<le> start_extended \<and> start_extended \<le> start \<and> start \<le> end'
            \<and> end' \<le> end_extended \<and> end_extended \<le> int (length txt)
            \<and> start - start_extended \<le> m div 2
            \<and> (start - start_extended) + (end_extended - end') \<le> m
            \<and> (start \<le> m div 2 \<longrightarrow> start_extended = 0
                  \<and> end_extended = min (end' + (m - start)) (int (length txt)))
            \<and> int (length window) = min (m + (end' - start)) (int (length txt) - start_extended)"
proof -
  define dtext where "dtext = TextDocument_text doc"
  define start where "start = Min (set (map span_start sps))"
  define fin where "fin = Max (set (map span_end sps))"
  define start_extended where "start_extended = max (start - m div 2) 0"
  define end_extended where
    "end_extended = min (fin + (m - (start - start_extended))) (int (length dtext))"
  define window where
    "window = take (nat (end_extended - start_extended)) (drop (nat start_extended) dtext)"
  have wf': "list_all (\<lambda>sp. span_start sp \<le> span_end sp) sps"
    using wf by (simp add: list_all_iff)
  have b: "0 \<le> start" "start \<le> fin" "fin \<le> int (length dtext)"
    using bounding_range_in_text [OF ne wf] by (simp_all add: start_def fin_def dtext_def)
  have half: "0 \<le> m div 2" "m div 2 \<le> m" using m by simp_all
  have se: "0 \<le> start_extended" "start_extended \<le> start" "start - start_extended \<le> m div 2"
    using b half by (simp_all add: start_extended_def)
  have ee: "fin \<le> end_extended" "end_extended \<le> int (length dtext)"
    using b se half by (simp_all add: end_extended_def)
  have budget: "(start - start_extended) + (end_extended - fin) \<le> m"
    by (simp add: end_extended_def)
  have near: "start \<le> m div 2 \<longrightarrow> start_extended = 0
                  \<and> end_extended = min (fin + (m - start)) (int (length dtext))"
    using b by (simp add: end_extended_def start_extended_def)
  have "length window = min (nat (end_extended - start_extended)) (length dtext - nat start_extended)"
    by (simp add: window_def)
  also have "\<dots> = nat (end_extended - start_extended)"
    using se ee by linarith
  finally have "int (length window) = end_extended - start_extended"
    using se ee b by linarith
  also have "\<dots> = min (m + (fin - start)) (int (length dtext) - start_extended)"
    unfolding end_extended_def by linarith
  finally have len:
    "int (length window) = min (m + (fin - start)) (int (length dtext) - start_extended)" .
  have call: "Segment_get_snippet seg doc m = Inr (py_slice dtext start_extended end_extended)"
    using get_snippet_plain [OF sp ne wf', of doc m]
    by (simp add: Let_def end_extended_def start_extended_def start_def fin_def dtext_def)
  have "start_extended \<le> end_extended" using se b ee by linarith
  then have "py_slice dtext start_extended end_extended = window"
    using py_slice_in_range [of start_extended end_extended dtext] se ee
    by (simp add: window_def)
  with call have res: "Segment_get_snippet seg doc m = Inr window" by simp
  show ?thesis
    using res se ee b budget near len
    unfolding Let_def dtext_def [symmetric] start_def [symmetric] fin_def [symmetric]
      start_extended_def [symmetric] end_extended_def [symmetric] window_def [symmetric]
    by simp
qed

theorem get_snippet_window_witness:
  "spans example_cat_split = map Plain [Span 4 5, Span 5 7]
   \<and> (0::int) \<le> 8
   \<and> Segment_get_snippet example_cat_split example_document 8 = Inr ''The cat sat''"
  using get_snippet_window [of example_cat_split "[Span 4 5, Span 5 7]" example_document 8]
  by (simp add: example_document_text example_spans)

text \<open>
  The window of \<open>sat.\<close> (the span from 8 to 12 of the 12 characters) with
  \<open>max_extend_length = 4\<close> is \<open>t sat.\<close>: two characters are added before the span,
  the two that remain are lost at the end of the text, and the window has 6 characters,
  fewer than \<open>min(4 + 4, 12) = 8\<close>.
\<close>

theorem get_snippet_window_shorter_at_end:
  "spans example_sat = [Plain (Span 8 12)]
   \<and> span_end (Span 8 12) \<le> int (length (TextDocument_text example_document))
   \<and> Segment_get_snippet example_sat example_document 4 = Inr ''t sat.''
   \<and> \<not> (min (4 + span_length (Span 8 12)) (int (length (TextDocument_text example_document)))
          \<le> int (length ''t sat.''))"
  by (simp add: Segment_get_snippet_def example_document_text example_spans py_slice_def
      span_length_def)

section \<open>Properties of serialization\<close>

text \<open>
  Serializing a segment that has a span fails: the comprehension calls \<open>to_dict\<close> on
  the first span, and neither class of spans has an attribute of that name. A segment
  without spans is serialized to the seven keys.
\<close>

lemma AnySpanType_to_dict_raises: "AnySpanType_to_dict s = Inl AttributeError"
  by (cases s) (simp_all add: AnySpanType_to_dict_def Span_attributes_def
      ModifiedSpan_attributes_def)

lemma Segment_to_dict_raises:
  "spans seg \<noteq> [] \<Longrightarrow> Segment_to_dict seg = Inl AttributeError"
  by (cases "spans seg") (simp_all add: Segment_to_dict_def AnySpanType_to_dict_raises)

lemma Segment_to_dict_no_spans:
  "spans seg = [] \<Longrightarrow>
   Segment_to_dict seg =
     Inr [(''uid'', PStr (ann_uid seg)), (''label'', PStr (ann_label seg)),
          (''attrs'', PList (map (\<lambda>x. PDict (Attribute_to_dict x)) (ann_attrs seg))),
          (''metadata'', PDict (ann_metadata seg)), (''class_name'', PStr (ann_class seg)),
          (''spans'', PList []), (''text'', PStr (seg_text seg))]"
  by (simp add: Segment_to_dict_def Annotation_to_dict_def add_class_name_to_data_dict_def
      class_name_key_def)

text \<open>
  C2. The specification states that \<open>from_dict(to_dict(x))\<close> reproduces \<open>x\<close> for every
  annotation variant. A base attribute does come back (\<open>Attribute_round_trip\<close>), but
  a segment or an entity with a span has no serialized form to read back:
  \<open>to_dict\<close> raises \<open>AttributeError\<close> on the segment \<open>sat.\<close> and on an entity that
  holds a modified span.
\<close>

theorem Segment_round_trip_stops_at_to_dict:
  "Segment_to_dict example_sat = Inl AttributeError
   \<and> (\<exists>e. new_Entity ''drug'' [Modified (ModifiedSpan 3 [Span 4 7])] ''dog'' None
              (Some ''ent-1'') None fresh = Inr e
          \<and> Segment_to_dict e = Inl AttributeError)"
  by (simp add: Segment_to_dict_raises example_spans new_Entity_def Entity_init_def
      Segment_init_def Let_def)

text \<open>
  C5. The specification states that \<open>to_dict\<close> of every segment returns a mapping whose \<open>spans\<close>
  entry holds a \<open>{start, end}\<close> mapping for each plain span. For the segment
  \<open>cat\<close> with the single span from 4 to 7, and for the same text as two contiguous
  spans, \<open>to_dict\<close> returns no mapping: it raises \<open>AttributeError\<close>.
\<close>

theorem Segment_to_dict_plain_span_raises:
  "Segment_to_dict example_cat = Inl AttributeError
   \<and> Segment_to_dict example_cat_split = Inl AttributeError"
  by (simp add: Segment_to_dict_raises example_spans)

section \<open>Properties of documents\<close>

text \<open>
  The identifier derived for the raw segment has the 36 characters of a UUID and is
  computed from the uid of the document alone. The call that is to build the raw
  segment with it fails for every text and every uid: \<open>uid\<close> is no parameter of
  \<open>Segment.__init__\<close>, whose parameter for the identifier is \<open>ann_id\<close>.
\<close>

lemma length_hex32: "length (hex32 w) = 32"
  by (simp add: hex32_def)

lemma length_raw_segment_uid: "length (raw_segment_uid getrandbits128 doc_id) = 36"
  by (simp add: raw_segment_uid_def str_UUID_def Let_def length_hex32)

lemma raw_segment_uid_example:
  "raw_segment_uid (\<lambda>_. 0x0123456789abcdef0123456789abcdef) ''doc-1''
   = ''01234567-89ab-cdef-0123-456789abcdef''"
  by (simp add: raw_segment_uid_def str_UUID_def hex32_def hex_digit_def upt_rec
      drop_bit_eq_div)

lemma generate_raw_segment_raises:
  "generate_raw_segment getrandbits128 fresh txt doc_id = Inl TypeError"
  by (simp add: generate_raw_segment_def accepts_keywords_def Segment_init_params_def)

lemma TextDocument_init_raises:
  "TextDocument_init cls getrandbits128 fresh_doc fresh txt anns metadata uid = Inl TypeError"
  by (simp add: TextDocument_init_def generate_raw_segment_raises)

text \<open>
  C1. The specification states that two constructions of a document with the same uid yield raw
  segments with the same uid. Constructing the document with the text \<open>hello\<close> and
  the uid \<open>doc-1\<close> yields no raw segment, whatever the generator draws: the
  construction raises \<open>TypeError\<close>.
\<close>

theorem TextDocument_with_uid_raises:
  "new_TextDocument getrandbits128 fresh_doc fresh ''hello'' None None (Some ''doc-1'')
   = Inl TypeError"
  by (simp add: new_TextDocument_def TextDocument_init_raises)

text \<open>
  C4. The specification states that a document constructed from a text \<open>t\<close> has a raw segment
  with the label \<open>RAW_TEXT\<close>, the text \<open>t\<close> and the spans \<open>[Span(0, len(t))]\<close>.
  Constructing the document with the text \<open>The cat sat.\<close> and no other argument
  raises \<open>TypeError\<close>: there is no document and no raw segment.
\<close>

theorem TextDocument_from_text_raises:
  "new_TextDocument getrandbits128 fresh_doc fresh ''The cat sat.'' None None None
   = Inl TypeError"
  by (simp add: new_TextDocument_def TextDocument_init_raises)

text \<open>
  C9. The specification states that two documents with the same uid and different texts have raw
  segments with equal uids. For the uid \<open>doc-1\<close> and the texts \<open>The cat sat.\<close> and
  \<open>The dog ran.\<close>, \<open>_generate_raw_segment\<close> returns no segment for either text: both
  calls raise \<open>TypeError\<close>.
\<close>

theorem generate_raw_segment_two_texts_raise:
  "generate_raw_segment getrandbits128 fresh ''The cat sat.'' ''doc-1'' = Inl TypeError
   \<and> generate_raw_segment getrandbits128 fresh ''The dog ran.'' ''doc-1'' = Inl TypeError"
  by (simp add: generate_raw_segment_raises)

end
